theory Spec2Isabelle
  imports Main
begin

section \<open>Data model\<close>

text \<open>
  Go strings and byte arrays are sequences of bytes; an Isabelle \<open>char\<close> is one byte, so
  \<open>string\<close> models both.  \<open>primitive.ObjectID\<close> is \<open>[12]byte\<close>.
\<close>

type_synonym ObjectID = "char list"

text \<open>\<open>type Travel struct\<close> of the source.\<close>

record Travel =
  ObjectID :: ObjectID
  Name :: string
  Photo :: string
  Done :: bool

text \<open>
  A Go \<open>error\<close> is observed by the program only through \<open>!= nil\<close> and \<open>Error()\<close>.
  The constructors are the error values that reach the handlers; \<open>None :: error option\<close>
  is the nil error.
\<close>

datatype error =
    ErrorString string               \<comment> \<open>\<open>errors.New(text)\<close>\<close>
  | InvalidByteError char            \<comment> \<open>\<open>encoding/hex\<close>\<close>
  | ErrLength                        \<comment> \<open>\<open>encoding/hex\<close>\<close>
  | ErrInvalidHex                    \<comment> \<open>\<open>primitive.ErrInvalidHex\<close>\<close>
  | ErrNoDocuments                   \<comment> \<open>\<open>mongo.ErrNoDocuments\<close>\<close>
  | DuplicateKey                     \<comment> \<open>the server's E11000 write error on \<open>_id\<close>\<close>
  | ImmutableField                   \<comment> \<open>the server's refusal to change \<open>_id\<close> in a replacement\<close>
  | ValidationError "error option" string  \<comment> \<open>\<open>jwt.ValidationError{Inner, text}\<close>\<close>

definition hextableUpper :: string where
  "hextableUpper = ''0123456789ABCDEF''"

text \<open>The verb \<open>%#U\<close> of \<open>fmt\<close> on a rune below 256, as \<open>InvalidByteError.Error\<close> uses it.\<close>

definition fmtSharpU :: "char \<Rightarrow> string" where
  "fmtSharpU c =
     (let n = (of_char c :: nat);
          code = ''U+00'' @ [hextableUpper ! (n div 16), hextableUpper ! (n mod 16)]
      in if 32 \<le> n \<and> n \<le> 126 then code @ '' '' @ [CHR 0x27, c, CHR 0x27]
         else if 161 \<le> n \<and> n \<noteq> 173
         then code @ '' '' @ [CHR 0x27, char_of (192 + n div 64), char_of (128 + n mod 64), CHR 0x27]
         else code)"

fun Error :: "error \<Rightarrow> string" where
  "Error (ErrorString s) = s"
| "Error (InvalidByteError c) = ''encoding/hex: invalid byte: '' @ fmtSharpU c"
| "Error ErrLength = ''encoding/hex: odd length hex string''"
| "Error ErrInvalidHex = ''the provided hex string is not a valid ObjectID''"
| "Error ErrNoDocuments = ''mongo: no documents in result''"
| "Error DuplicateKey = ''E11000 duplicate key error''"
| "Error ImmutableField = ''the (immutable) field _id was found to have been altered''"
| "Error (ValidationError (Some inner) text) = Error inner"
| "Error (ValidationError None text) = (if text \<noteq> [] then text else ''token is invalid'')"

section \<open>Identifiers: \<open>encoding/hex\<close> and \<open>primitive.ObjectID\<close>\<close>

definition hextable :: string where
  "hextable = ''0123456789abcdef''"

definition fromHexChar :: "char \<Rightarrow> nat option" where
  "fromHexChar c =
     (let n = (of_char c :: nat)
      in if 48 \<le> n \<and> n \<le> 57 then Some (n - 48)
         else if 97 \<le> n \<and> n \<le> 102 then Some (n - 97 + 10)
         else if 65 \<le> n \<and> n \<le> 70 then Some (n - 65 + 10)
         else None)"

text \<open>
  \<open>hex.DecodeString\<close>: pairs of digits from the left, the first bad digit reported
  before an odd length.
\<close>

fun hex_DecodeString :: "string \<Rightarrow> error + char list" where
  "hex_DecodeString [] = Inr []"
| "hex_DecodeString [c] =
     (case fromHexChar c of None \<Rightarrow> Inl (InvalidByteError c) | Some a \<Rightarrow> Inl ErrLength)"
| "hex_DecodeString (c # d # rest) =
     (case fromHexChar c of
        None \<Rightarrow> Inl (InvalidByteError c)
      | Some a \<Rightarrow>
          (case fromHexChar d of
             None \<Rightarrow> Inl (InvalidByteError d)
           | Some b \<Rightarrow>
               (case hex_DecodeString rest of
                  Inl e \<Rightarrow> Inl e
                | Inr bs \<Rightarrow> Inr (char_of (a * 16 + b) # bs))))"

fun hex_EncodeToString :: "char list \<Rightarrow> string" where
  "hex_EncodeToString [] = []"
| "hex_EncodeToString (b # bs) =
     hextable ! ((of_char b :: nat) div 16) # hextable ! ((of_char b :: nat) mod 16)
       # hex_EncodeToString bs"

definition NilObjectID :: ObjectID where
  "NilObjectID = replicate 12 (CHR 0x00)"

text \<open>
  \<open>primitive.ObjectIDFromHex\<close> returns \<open>(NilObjectID, err)\<close> on failure; the pair is kept
  because \<open>updateOne\<close> reads the first component and drops the second.
\<close>

definition ObjectIDFromHex :: "string \<Rightarrow> ObjectID \<times> error option" where
  "ObjectIDFromHex s =
     (case hex_DecodeString s of
        Inl e \<Rightarrow> (NilObjectID, Some e)
      | Inr b \<Rightarrow> if length b \<noteq> 12 then (NilObjectID, Some ErrInvalidHex) else (b, None))"

definition Hex :: "ObjectID \<Rightarrow> string" where
  "Hex oid = hex_EncodeToString oid"

section \<open>The document collection\<close>

text \<open>
  \<open>d.Collection\<close> is the list of its documents in the store's order.  Every driver call
  takes \<open>fault\<close>, the error of the transport or of the 20 second deadline when the
  call meets one; \<open>None\<close> is a call the server answers.
\<close>

type_synonym Collection = "Travel list"

definition Collection_FindOne :: "error option \<Rightarrow> Collection \<Rightarrow> ObjectID \<Rightarrow> error + Travel" where
  "Collection_FindOne fault col oid =
     (case fault of
        Some e \<Rightarrow> Inl e
      | None \<Rightarrow>
          (case find (\<lambda>d. ObjectID d = oid) col of
             None \<Rightarrow> Inl ErrNoDocuments
           | Some d \<Rightarrow> Inr d))"

definition Collection_InsertOne ::
  "error option \<Rightarrow> Collection \<Rightarrow> Travel \<Rightarrow> error option \<times> Collection" where
  "Collection_InsertOne fault col doc =
     (case fault of
        Some e \<Rightarrow> (Some e, col)
      | None \<Rightarrow>
          if ObjectID doc \<in> set (map ObjectID col) then (Some DuplicateKey, col)
          else (None, col @ [doc]))"

fun replaceFirst :: "ObjectID \<Rightarrow> Travel \<Rightarrow> Collection \<Rightarrow> Collection" where
  "replaceFirst oid doc [] = []"
| "replaceFirst oid doc (d # ds) =
     (if ObjectID d = oid then doc # ds else d # replaceFirst oid doc ds)"

text \<open>\<open>ReplaceOne\<close> without upsert: no match is \<open>MatchedCount = 0\<close> and a nil error.\<close>

definition Collection_ReplaceOne ::
  "error option \<Rightarrow> Collection \<Rightarrow> ObjectID \<Rightarrow> Travel \<Rightarrow> error option \<times> Collection" where
  "Collection_ReplaceOne fault col oid doc =
     (case fault of
        Some e \<Rightarrow> (Some e, col)
      | None \<Rightarrow>
          if oid \<in> set (map ObjectID col) \<and> ObjectID doc \<noteq> oid then (Some ImmutableField, col)
          else (None, replaceFirst oid doc col))"

fun removeFirst :: "ObjectID \<Rightarrow> Collection \<Rightarrow> Collection" where
  "removeFirst oid [] = []"
| "removeFirst oid (d # ds) = (if ObjectID d = oid then ds else d # removeFirst oid ds)"

definition Collection_DeleteOne ::
  "error option \<Rightarrow> Collection \<Rightarrow> ObjectID \<Rightarrow> error option \<times> Collection" where
  "Collection_DeleteOne fault col oid =
     (case fault of Some e \<Rightarrow> (Some e, col) | None \<Rightarrow> (None, removeFirst oid col))"

definition Collection_Find :: "error option \<Rightarrow> Collection \<Rightarrow> error + Travel list" where
  "Collection_Find fault col = (case fault of Some e \<Rightarrow> Inl e | None \<Rightarrow> Inr col)"

section \<open>The repository\<close>

text \<open>
  Each method takes the collection and returns it updated.  A method that returns
  \<open>(*T, error)\<close> returns exactly one of the two, so its result is \<open>error + T\<close>; a method
  that writes through its \<open>*Travel\<close> argument returns the record as written.  The
  parameter \<open>id\<close> of the source is \<open>idHex\<close> here.
\<close>

definition findAll :: "error option \<Rightarrow> Collection \<Rightarrow> error + Travel list" where
  "findAll fault col = Collection_Find fault col"

definition findOne :: "error option \<Rightarrow> Collection \<Rightarrow> string \<Rightarrow> error + Travel" where
  "findOne fault col idHex =
     (case ObjectIDFromHex idHex of
        (objectId, Some err) \<Rightarrow> Inl err
      | (objectId, None) \<Rightarrow> Collection_FindOne fault col objectId)"

text \<open>\<open>newId\<close> is what \<open>primitive.NewObjectID()\<close> returns in this call.\<close>

definition insertOne ::
  "ObjectID \<Rightarrow> error option \<Rightarrow> Collection \<Rightarrow> Travel \<Rightarrow> error option \<times> Travel \<times> Collection" where
  "insertOne newId fault col travel =
     (let travel' = travel\<lparr>ObjectID := newId\<rparr>
      in case Collection_InsertOne fault col travel' of
           (Some err, col') \<Rightarrow> (Some err, travel', col')
         | (None, col') \<Rightarrow> (None, travel', col'))"

definition updateOne ::
  "error option \<Rightarrow> Collection \<Rightarrow> string \<Rightarrow> Travel \<Rightarrow> error option \<times> Travel \<times> Collection" where
  "updateOne fault col idHex travel =
     (let travel' = travel\<lparr>ObjectID := fst (ObjectIDFromHex idHex)\<rparr>
      in case Collection_ReplaceOne fault col (ObjectID travel') travel' of
           (Some err, col') \<Rightarrow> (Some err, travel', col')
         | (None, col') \<Rightarrow> (None, travel', col'))"

definition deleteOne :: "error option \<Rightarrow> Collection \<Rightarrow> string \<Rightarrow> error option \<times> Collection" where
  "deleteOne fault col idHex =
     (case ObjectIDFromHex idHex of
        (objectId, Some err) \<Rightarrow> (Some err, col)
      | (objectId, None) \<Rightarrow>
          (case Collection_DeleteOne fault col objectId of
             (Some err, col') \<Rightarrow> (Some err, col')
           | (None, col') \<Rightarrow> (None, col')))"

section \<open>The request context and the response helper\<close>

text \<open>The JSON documents the handlers and the middleware's error handler write.\<close>

datatype json =
    ErrorJSON string               \<comment> \<open>\<open>{"error": text}\<close>\<close>
  | TravelJSON Travel
  | TravelsJSON "Travel list"
  | MsgJSON bool string            \<comment> \<open>\<open>{"error": flag, "msg": text}\<close>\<close>

text \<open>The \<open>data interface{}\<close> argument of \<open>response\<close>.\<close>

datatype data = Nil_data | Travel_data Travel | Travels_data "Travel list"

fun data_json :: "data \<Rightarrow> json option" where
  "data_json Nil_data = None"
| "data_json (Travel_data t) = Some (TravelJSON t)"
| "data_json (Travels_data ts) = Some (TravelsJSON ts)"

text \<open>
  \<open>*fiber.Ctx\<close>: what the handlers read of the request (the \<open>:id\<close> parameter, the
  Authorization header, and what \<open>BodyParser\<close> makes of the body: its error and the
  record as it leaves it) and what they write
  (status and JSON body).  A fresh context has status 200 and no body.
\<close>

record Ctx =
  Params_id :: string
  Get_Authorization :: string
  BodyParser :: "error option \<times> Travel"
  Status :: int
  Body :: "json option"

definition StatusOK :: int where "StatusOK = 200"
definition StatusNoContent :: int where "StatusNoContent = 204"
definition StatusBadRequest :: int where "StatusBadRequest = 400"
definition StatusUnauthorized :: int where "StatusUnauthorized = 401"
definition StatusUnprocessableEntity :: int where "StatusUnprocessableEntity = 422"
definition StatusInternalServerError :: int where "StatusInternalServerError = 500"

definition newCtx :: "string \<Rightarrow> string \<Rightarrow> error option \<times> Travel \<Rightarrow> Ctx" where
  "newCtx pid auth parsed =
     \<lparr>Params_id = pid, Get_Authorization = auth, BodyParser = parsed,
      Status = StatusOK, Body = None\<rparr>"

definition response :: "data \<Rightarrow> int \<Rightarrow> error option \<Rightarrow> Ctx \<Rightarrow> Ctx" where
  "response dat httpStatus err c =
     (case err of
        Some e \<Rightarrow> c\<lparr>Status := StatusInternalServerError, Body := Some (ErrorJSON (Error e))\<rparr>
      | None \<Rightarrow>
          (case data_json dat of
             Some j \<Rightarrow> c\<lparr>Status := httpStatus, Body := Some j\<rparr>
           | None \<Rightarrow> c\<lparr>Status := httpStatus\<rparr>))"

section \<open>The public handlers\<close>

definition getTravels :: "error option \<Rightarrow> Collection \<Rightarrow> Ctx \<Rightarrow> Ctx" where
  "getTravels fault col c =
     (case findAll fault col of
        Inl err \<Rightarrow> response Nil_data StatusOK (Some err) c
      | Inr travels \<Rightarrow> response (Travels_data travels) StatusOK None c)"

definition getTravel :: "error option \<Rightarrow> Collection \<Rightarrow> Ctx \<Rightarrow> Ctx" where
  "getTravel fault col c =
     (let idHex = Params_id c
      in if idHex = [] then
           response Nil_data StatusUnprocessableEntity (Some (ErrorString ''id is not defined'')) c
         else
           (case findOne fault col idHex of
              Inl err \<Rightarrow> response Nil_data StatusOK (Some err) c
            | Inr travel \<Rightarrow> response (Travel_data travel) StatusOK None c))"

section \<open>Strings\<close>

text \<open>
  \<open>strings.Split(s, sep)\<close> for a separator of one byte: the pieces between the
  separators, one piece more than there are separators (\<open>[""]\<close> for the empty string).
  \<open>cur\<close> is the piece being read, reversed.
\<close>

fun split_from :: "char \<Rightarrow> string \<Rightarrow> string \<Rightarrow> string list" where
  "split_from sep cur [] = [rev cur]"
| "split_from sep cur (c # cs) =
     (if c = sep then rev cur # split_from sep [] cs else split_from sep (c # cur) cs)"

definition strings_Split :: "string \<Rightarrow> char \<Rightarrow> string list" where
  "strings_Split s sep = split_from sep [] s"

definition toLowerASCII :: "char \<Rightarrow> char" where
  "toLowerASCII c =
     (let n = (of_char c :: nat) in if 65 \<le> n \<and> n \<le> 90 then char_of (n + 32) else c)"

section \<open>The token library\<close>

text \<open>
  The values \<open>encoding/json\<close> decodes into \<open>interface{}\<close>.  The program and the token
  library read a number only through \<open>int64(x)\<close>, so \<open>JNumber\<close> carries that integer.
\<close>

datatype jval = JNumber int | JString string | JBool bool | JNull | JArray | JObject

text \<open>
  \<open>jwt.Claims\<close> is an interface; \<open>jwt.Parse\<close> fills it with \<open>jwt.MapClaims\<close>.
  A Go map has one entry per key: lookups go through \<open>map_of\<close>.
\<close>

datatype Claims = MapClaims "(string \<times> jval) list" | StandardClaims

record Token =
  Raw :: string
  Method :: string
  Header :: "(string \<times> jval) list"
  Claims :: Claims
  Signature :: string
  Valid :: bool

text \<open>
  The parts of the token library that are pure encodings and cryptography are
  parameters of the model: base64url without padding (\<open>jwt.DecodeSegment\<close>,
  \<open>jwt.EncodeSegment\<close>), \<open>encoding/json\<close> on a JSON object, and HMAC with the hash
  of the named method.  What \<open>jwt.Parse\<close> and \<open>SignedString\<close> do with them follows
  jwt-go v3.2.2, the version of the module file.
\<close>

record Lib =
  DecodeSegment :: "string \<Rightarrow> error + string"
  EncodeSegment :: "string \<Rightarrow> string"
  json_Unmarshal :: "string \<Rightarrow> error + (string \<times> jval) list"
  json_Marshal :: "(string \<times> jval) list \<Rightarrow> string"
  hmac_Sum :: "string \<Rightarrow> string \<Rightarrow> string \<Rightarrow> string"

definition ErrSignatureInvalid :: error where
  "ErrSignatureInvalid = ErrorString ''signature is invalid''"

definition ErrInvalidKeyType :: error where
  "ErrInvalidKeyType = ErrorString ''key is of invalid type''"

definition hmacMethods :: "string list" where
  "hmacMethods = [''HS256'', ''HS384'', ''HS512'']"

definition signingMethods :: "string list" where
  "signingMethods =
     hmacMethods @ [''RS256'', ''RS384'', ''RS512'', ''PS256'', ''PS384'', ''PS512'',
                    ''ES256'', ''ES384'', ''ES512'', ''none'']"

text \<open>
  \<open>Method.Verify(signingString, signature, key)\<close> with a key of type \<open>[]byte\<close>, the
  only type the key functions of this program return: the HMAC methods compare the
  MAC, the others refuse the key.
\<close>

definition Method_Verify :: "Lib \<Rightarrow> string \<Rightarrow> string \<Rightarrow> string \<Rightarrow> string \<Rightarrow> error option" where
  "Method_Verify L alg signingString signature key =
     (if alg \<in> set hmacMethods then
        (case DecodeSegment L signature of
           Inl err \<Rightarrow> Some err
         | Inr sig \<Rightarrow>
             if sig \<noteq> hmac_Sum L alg key signingString then Some ErrSignatureInvalid else None)
      else if alg = ''none'' then
        Some (ValidationError None ([CHR 0x27] @ ''none'' @ [CHR 0x27] @ '' signature type is not allowed''))
      else
        (case DecodeSegment L signature of
           Inl err \<Rightarrow> Some err
         | Inr sig \<Rightarrow> Some ErrInvalidKeyType))"

definition Method_Sign :: "Lib \<Rightarrow> string \<Rightarrow> string \<Rightarrow> string \<Rightarrow> error + string" where
  "Method_Sign L alg signingString key =
     (if alg \<in> set hmacMethods then Inr (EncodeSegment L (hmac_Sum L alg key signingString))
      else Inl ErrInvalidKeyType)"

definition claimNumber :: "(string \<times> jval) list \<Rightarrow> string \<Rightarrow> int option" where
  "claimNumber m k = (case map_of m k of Some (JNumber n) \<Rightarrow> Some n | _ \<Rightarrow> None)"

text \<open>
  \<open>MapClaims.VerifyExpiresAt(cmp, false)\<close> and its siblings: a claim that is absent,
  not a number or 0 passes.
\<close>

definition VerifyExpiresAt :: "(string \<times> jval) list \<Rightarrow> int \<Rightarrow> bool" where
  "VerifyExpiresAt m cmp =
     (case claimNumber m ''exp'' of None \<Rightarrow> True | Some e \<Rightarrow> if e = 0 then True else cmp \<le> e)"

definition VerifyIssuedAt :: "(string \<times> jval) list \<Rightarrow> int \<Rightarrow> bool" where
  "VerifyIssuedAt m cmp =
     (case claimNumber m ''iat'' of None \<Rightarrow> True | Some i \<Rightarrow> if i = 0 then True else i \<le> cmp)"

definition VerifyNotBefore :: "(string \<times> jval) list \<Rightarrow> int \<Rightarrow> bool" where
  "VerifyNotBefore m cmp =
     (case claimNumber m ''nbf'' of None \<Rightarrow> True | Some n \<Rightarrow> if n = 0 then True else n \<le> cmp)"

text \<open>\<open>MapClaims.Valid()\<close> at the clock reading \<open>now\<close>; a later failure replaces \<open>Inner\<close>.\<close>

definition MapClaims_Valid :: "int \<Rightarrow> (string \<times> jval) list \<Rightarrow> error option" where
  "MapClaims_Valid now m =
     (let inner1 = (if \<not> VerifyExpiresAt m now then Some (ErrorString ''Token is expired'') else None);
          inner2 = (if \<not> VerifyIssuedAt m now then Some (ErrorString ''Token used before issued'')
                    else inner1);
          inner3 = (if \<not> VerifyNotBefore m now then Some (ErrorString ''Token is not valid yet'')
                    else inner2)
      in case inner3 of None \<Rightarrow> None | Some e \<Rightarrow> Some (ValidationError (Some e) []))"

text \<open>
  \<open>jwt.Parse(tokenString, keyFunc)\<close> at the clock reading \<open>now\<close>.  \<open>keyFunc\<close> maps the
  method named in the header to the key or to an error.  The library returns the
  token beside a non-nil error; \<open>verifyToken\<close> drops it, so the result is a sum.
  A nil error is returned only on the path that sets \<open>Valid\<close>.
\<close>

definition jwt_Parse ::
  "Lib \<Rightarrow> int \<Rightarrow> (string \<Rightarrow> error + string) \<Rightarrow> string \<Rightarrow> error + Token" where
  "jwt_Parse L now keyFunc tokenString =
     (let parts = strings_Split tokenString (CHR ''.'')
      in if length parts \<noteq> 3 then
           Inl (ValidationError None ''token contains an invalid number of segments'')
         else
           (case DecodeSegment L (parts ! 0) of
              Inl err \<Rightarrow>
                if take 7 (map toLowerASCII tokenString) = ''bearer '' then
                  Inl (ValidationError None (''tokenstring should not contain '' @ [CHR 0x27] @ ''bearer '' @ [CHR 0x27]))
                else Inl (ValidationError (Some err) [])
            | Inr headerBytes \<Rightarrow>
           (case json_Unmarshal L headerBytes of
              Inl err \<Rightarrow> Inl (ValidationError (Some err) [])
            | Inr header \<Rightarrow>
           (case DecodeSegment L (parts ! 1) of
              Inl err \<Rightarrow> Inl (ValidationError (Some err) [])
            | Inr claimBytes \<Rightarrow>
           (case json_Unmarshal L claimBytes of
              Inl err \<Rightarrow> Inl (ValidationError (Some err) [])
            | Inr claims \<Rightarrow>
           (case map_of header ''alg'' of
              Some (JString method) \<Rightarrow>
                if method \<notin> set signingMethods then
                  Inl (ValidationError None ''signing method (alg) is unavailable.'')
                else
                  (case keyFunc method of
                     Inl err \<Rightarrow> Inl (ValidationError (Some err) [])
                   | Inr key \<Rightarrow>
                       (case Method_Verify L method (parts ! 0 @ ''.'' @ parts ! 1) (parts ! 2) key of
                          Some err \<Rightarrow> Inl (ValidationError (Some err) [])
                        | None \<Rightarrow>
                            (case MapClaims_Valid now claims of
                               Some vErr \<Rightarrow> Inl vErr
                             | None \<Rightarrow>
                                 Inr \<lparr>Raw = tokenString, Method = method, Header = header,
                                      Claims = MapClaims claims, Signature = parts ! 2,
                                      Valid = True\<rparr>)))
            | _ \<Rightarrow> Inl (ValidationError None ''signing method (alg) is unspecified.'')))))))"

text \<open>\<open>jwt.NewWithClaims(method, claims).SignedString(key)\<close>.\<close>

definition SignedString :: "Lib \<Rightarrow> string \<Rightarrow> (string \<times> jval) list \<Rightarrow> string \<Rightarrow> error + string" where
  "SignedString L alg claims key =
     (let header = [(''typ'', JString ''JWT''), (''alg'', JString alg)];
          sstr = EncodeSegment L (json_Marshal L header) @ ''.''
                   @ EncodeSegment L (json_Marshal L claims)
      in case Method_Sign L alg sstr key of
           Inl err \<Rightarrow> Inl err
         | Inr sig \<Rightarrow> Inr (sstr @ ''.'' @ sig))"

section \<open>The environment of a request\<close>

text \<open>
  What a handler reads from outside the request: the signing secret, the clock (read
  by the handler, and after that by the token library during \<open>jwt.Parse\<close>), the
  identifier \<open>primitive.NewObjectID()\<close> returns, and the fault of the driver call.
\<close>

record Env =
  JWT_SECRET_KEY :: string
  time_Now_Unix :: int
  jwt_TimeFunc_Unix :: int
  NewObjectID :: ObjectID
  fault :: "error option"

section \<open>Token verification and issuance\<close>

definition extractToken :: "Ctx \<Rightarrow> string" where
  "extractToken c =
     (let bearToken = Get_Authorization c;
          onlyToken = strings_Split bearToken (CHR '' '')
      in if length onlyToken = 2 then onlyToken ! 1 else [])"

definition jwtKeyFunc :: "Env \<Rightarrow> string \<Rightarrow> error + string" where
  "jwtKeyFunc env method = Inr (JWT_SECRET_KEY env)"

definition verifyToken :: "Lib \<Rightarrow> Env \<Rightarrow> Ctx \<Rightarrow> error + Token" where
  "verifyToken L env c =
     (let tokenString = extractToken c
      in case jwt_Parse L (jwt_TimeFunc_Unix env) (jwtKeyFunc env) tokenString of
           Inl err \<Rightarrow> Inl err
         | Inr token \<Rightarrow> Inr token)"

record TokenMetadata =
  Expires :: int

text \<open>
  A call either panics or returns.  \<open>ExtractTokenMetadata\<close> returns the pair
  \<open>(*TokenMetadata, error)\<close>; \<open>None\<close> is nil in both places.  The type assertion
  \<open>claims["exp"].(float64)\<close> panics when the claim is absent or not a number.
\<close>

datatype 'a outcome = Panic | Return 'a

definition ExtractTokenMetadata ::
  "Lib \<Rightarrow> Env \<Rightarrow> Ctx \<Rightarrow> (TokenMetadata option \<times> error option) outcome" where
  "ExtractTokenMetadata L env c =
     (case verifyToken L env c of
        Inl err \<Rightarrow> Return (None, Some err)
      | Inr token \<Rightarrow>
          (case Claims token of
             MapClaims claims \<Rightarrow>
               if Valid token then
                 (case map_of claims ''exp'' of
                    Some (JNumber expires) \<Rightarrow> Return (Some \<lparr>Expires = expires\<rparr>, None)
                  | _ \<Rightarrow> Panic)
               else Return (None, None)
           | StandardClaims \<Rightarrow> Return (None, None)))"

text \<open>
  Go's \<open>int64\<close> arithmetic wraps.  \<open>time.Minute * time.Duration(minutesCount)\<close> is a
  count of nanoseconds in an \<open>int64\<close>.
\<close>

definition wrap64 :: "int \<Rightarrow> int" where
  "wrap64 x = (x + 2 ^ 63) mod 2 ^ 64 - 2 ^ 63"

text \<open>
  \<open>GenerateNewAccessToken\<close>.  \<open>minutesCount\<close> is what \<open>strconv.Atoi\<close> made of
  \<open>JWT_SECRET_KEY_EXPIRE_MINUTES_COUNT\<close> (0 when it does not parse), \<open>nowNano\<close> the
  reading of \<open>time.Now()\<close> in nanoseconds since the epoch; \<open>Unix()\<close> rounds down to
  seconds.
\<close>

definition accessTokenExp :: "int \<Rightarrow> int \<Rightarrow> int" where
  "accessTokenExp minutesCount nowNano =
     (nowNano + wrap64 (60000000000 * minutesCount)) div 1000000000"

definition GenerateNewAccessToken :: "Lib \<Rightarrow> string \<Rightarrow> int \<Rightarrow> int \<Rightarrow> error + string" where
  "GenerateNewAccessToken L secret minutesCount nowNano =
     (let claims = [(''exp'', JNumber (accessTokenExp minutesCount nowNano))]
      in case SignedString L ''HS256'' claims secret of
           Inl err \<Rightarrow> Inl err
         | Inr t \<Rightarrow> Inr t)"

section \<open>The protected handlers\<close>

text \<open>
  A handler returns the context as written and the collection as left.  Reading
  \<open>claims.Expires\<close> through a nil \<open>*TokenMetadata\<close> panics.
\<close>

definition expiredMsg :: string where
  "expiredMsg = ''unauthorized, check expiration time of your token''"

definition createTravel :: "Lib \<Rightarrow> Env \<Rightarrow> Collection \<Rightarrow> Ctx \<Rightarrow> (Ctx \<times> Collection) outcome" where
  "createTravel L env col c =
     (let now = time_Now_Unix env
      in case ExtractTokenMetadata L env c of
           Panic \<Rightarrow> Panic
         | Return (claims, Some err) \<Rightarrow>
             Return (response Nil_data StatusInternalServerError (Some err) c, col)
         | Return (None, None) \<Rightarrow> Panic
         | Return (Some claims, None) \<Rightarrow>
             (let expires = Expires claims
              in if now > expires then
                   Return (response Nil_data StatusUnauthorized (Some (ErrorString expiredMsg)) c, col)
                 else
                   (case BodyParser c of
                      (Some err, travel) \<Rightarrow>
                        Return (response (Travel_data travel) StatusUnprocessableEntity (Some err) c, col)
                    | (None, travel) \<Rightarrow>
                        (case insertOne (NewObjectID env) (fault env) col travel of
                           (err, travel', col') \<Rightarrow>
                             Return (response (Travel_data travel') StatusOK err c, col')))))"

definition updateTravel :: "Lib \<Rightarrow> Env \<Rightarrow> Collection \<Rightarrow> Ctx \<Rightarrow> (Ctx \<times> Collection) outcome" where
  "updateTravel L env col c =
     (let now = time_Now_Unix env
      in case ExtractTokenMetadata L env c of
           Panic \<Rightarrow> Panic
         | Return (claims, Some err) \<Rightarrow>
             Return (response Nil_data StatusInternalServerError (Some err) c, col)
         | Return (None, None) \<Rightarrow> Panic
         | Return (Some claims, None) \<Rightarrow>
             (let expires = Expires claims
              in if now > expires then
                   Return (response Nil_data StatusUnauthorized (Some (ErrorString expiredMsg)) c, col)
                 else
                   (let idHex = Params_id c
                    in if idHex = [] then
                         Return (response Nil_data StatusUnprocessableEntity
                                   (Some (ErrorString ''id is not defined'')) c, col)
                       else
                         (case BodyParser c of
                            (Some err, travel) \<Rightarrow>
                              Return (response (Travel_data travel) StatusUnprocessableEntity
                                        (Some err) c, col)
                          | (None, travel) \<Rightarrow>
                              (case updateOne (fault env) col idHex travel of
                                 (err, travel', col') \<Rightarrow>
                                   Return (response Nil_data StatusNoContent err c, col'))))))"

definition deleteTravel :: "Lib \<Rightarrow> Env \<Rightarrow> Collection \<Rightarrow> Ctx \<Rightarrow> (Ctx \<times> Collection) outcome" where
  "deleteTravel L env col c =
     (let now = time_Now_Unix env
      in case ExtractTokenMetadata L env c of
           Panic \<Rightarrow> Panic
         | Return (claims, Some err) \<Rightarrow>
             Return (response Nil_data StatusInternalServerError (Some err) c, col)
         | Return (None, None) \<Rightarrow> Panic
         | Return (Some claims, None) \<Rightarrow>
             (let expires = Expires claims
              in if now > expires then
                   Return (response Nil_data StatusUnauthorized (Some (ErrorString expiredMsg)) c, col)
                 else
                   (let idHex = Params_id c
                    in if idHex = [] then
                         Return (response Nil_data StatusUnprocessableEntity
                                   (Some (ErrorString ''id is not defined'')) c, col)
                       else
                         (case deleteOne (fault env) col idHex of
                            (err, col') \<Rightarrow>
                              Return (response Nil_data StatusNoContent err c, col')))))"

section \<open>The middleware of the protected routes\<close>

text \<open>
  \<open>JWTProtected()\<close> configures the middleware of gofiber/jwt v2 with the signing key,
  the default method HS256, the default lookup \<open>header:Authorization\<close> with scheme
  \<open>Bearer\<close>, and \<open>jwtError\<close> as its error handler.  The middleware reads the header,
  parses the token at its own clock reading and either answers through the error
  handler or calls the next handler.
\<close>

definition jwtFromHeader :: "Ctx \<Rightarrow> error + string" where
  "jwtFromHeader c =
     (let auth = Get_Authorization c; l = length ''Bearer''
      in if length auth > l + 1 \<and> take l auth = ''Bearer'' then Inr (drop (l + 1) auth)
         else Inl (ErrorString ''Missing or malformed JWT''))"

definition jwtError :: "Ctx \<Rightarrow> error \<Rightarrow> Ctx" where
  "jwtError c err =
     (if Error err = ''Missing or malformed JWT'' then
        c\<lparr>Status := StatusBadRequest, Body := Some (MsgJSON True (Error err))\<rparr>
      else
        c\<lparr>Status := StatusUnauthorized, Body := Some (MsgJSON True (Error err))\<rparr>)"

definition middlewareKeyFunc :: "Env \<Rightarrow> string \<Rightarrow> error + string" where
  "middlewareKeyFunc env method =
     (if method \<noteq> ''HS256'' then Inl (ErrorString (''Unexpected jwt signing method='' @ method))
      else Inr (JWT_SECRET_KEY env))"

datatype step = Respond Ctx | Next Ctx

definition JWTProtected :: "Lib \<Rightarrow> Env \<Rightarrow> int \<Rightarrow> Ctx \<Rightarrow> step" where
  "JWTProtected L env mwNow c =
     (case jwtFromHeader c of
        Inl err \<Rightarrow> Respond (jwtError c err)
      | Inr auth \<Rightarrow>
          (case jwt_Parse L mwNow (middlewareKeyFunc env) auth of
             Inl err \<Rightarrow> Respond (jwtError c err)
           | Inr token \<Rightarrow> Next c))"

text \<open>
  \<open>Routes\<close>: a protected route is the middleware followed by the handler.  \<open>mwNow\<close>
  is the clock reading of the middleware's \<open>jwt.Parse\<close>.
\<close>

definition protected ::
  "Lib \<Rightarrow> Env \<Rightarrow> int \<Rightarrow> (Lib \<Rightarrow> Env \<Rightarrow> Collection \<Rightarrow> Ctx \<Rightarrow> (Ctx \<times> Collection) outcome)
     \<Rightarrow> Collection \<Rightarrow> Ctx \<Rightarrow> (Ctx \<times> Collection) outcome" where
  "protected L env mwNow handler col c =
     (case JWTProtected L env mwNow c of
        Respond c' \<Rightarrow> Return (c', col)
      | Next c' \<Rightarrow> handler L env col c')"

definition POST_travels :: "Lib \<Rightarrow> Env \<Rightarrow> int \<Rightarrow> Collection \<Rightarrow> Ctx \<Rightarrow> (Ctx \<times> Collection) outcome" where
  "POST_travels L env mwNow col c = protected L env mwNow createTravel col c"

definition PUT_travels_id :: "Lib \<Rightarrow> Env \<Rightarrow> int \<Rightarrow> Collection \<Rightarrow> Ctx \<Rightarrow> (Ctx \<times> Collection) outcome" where
  "PUT_travels_id L env mwNow col c = protected L env mwNow updateTravel col c"

definition DELETE_travels_id :: "Lib \<Rightarrow> Env \<Rightarrow> int \<Rightarrow> Collection \<Rightarrow> Ctx \<Rightarrow> (Ctx \<times> Collection) outcome" where
  "DELETE_travels_id L env mwNow col c = protected L env mwNow deleteTravel col c"

section \<open>A concrete instance of the library parameters\<close>

text \<open>
  To run the model on concrete requests the parameters of \<open>Lib\<close> need values.  This
  instance encodes segments in hexadecimal, knows the JSON texts of a fixed table and
  takes the concatenation of method, key and message for the MAC.  It stands in for
  base64url, \<open>encoding/json\<close> and HMAC only where a closed example is evaluated; the
  general theorems quantify over every \<open>Lib\<close>.
\<close>

definition demoTable :: "(string \<times> (string \<times> jval) list) list" where
  "demoTable =
     [(''{alg:HS256,typ:JWT}'', [(''typ'', JString ''JWT''), (''alg'', JString ''HS256'')]),
      (''{exp:0}'', [(''exp'', JNumber 0)]),
      (''{exp:940}'', [(''exp'', JNumber 940)]),
      (''{exp:1900}'', [(''exp'', JNumber 1900)]),
      (''{}'', [])]"

definition demoLib :: Lib where
  "demoLib =
     \<lparr>DecodeSegment = hex_DecodeString,
      EncodeSegment = hex_EncodeToString,
      json_Unmarshal =
        (\<lambda>s. case map_of demoTable s of
               Some obj \<Rightarrow> Inr obj
             | None \<Rightarrow> Inl (ErrorString ''unexpected end of JSON input'')),
      json_Marshal =
        (\<lambda>obj. case find (\<lambda>e. snd e = obj) demoTable of Some e \<Rightarrow> fst e | None \<Rightarrow> ''{}''),
      hmac_Sum = (\<lambda>alg key msg. alg @ key @ msg)\<rparr>"

definition demoEnv :: Env where
  "demoEnv =
     \<lparr>JWT_SECRET_KEY = ''secret'', time_Now_Unix = 1000, jwt_TimeFunc_Unix = 1000,
      NewObjectID = ''abcdefghijkl'', fault = None\<rparr>"

definition demoTravel :: Travel where
  "demoTravel = \<lparr>ObjectID = NilObjectID, Name = ''Bali'', Photo = ''bali.png'', Done = False\<rparr>"

definition demoUpdate :: Travel where
  "demoUpdate = \<lparr>ObjectID = ''abcdefghijkl'', Name = ''Lombok'', Photo = ''l.png'', Done = True\<rparr>"

text \<open>The token the instance issues for the claim set \<open>{exp: e}\<close> under the key of \<open>demoEnv\<close>.\<close>

definition demoToken :: "int \<Rightarrow> string" where
  "demoToken e =
     (case SignedString demoLib ''HS256'' [(''exp'', JNumber e)] ''secret'' of
        Inl err \<Rightarrow> []
      | Inr t \<Rightarrow> t)"

section \<open>Observations and library properties used in the statements\<close>

text \<open>The status and the body a handler has written when it returns.\<close>

definition statusOf :: "(Ctx \<times> Collection) outcome \<Rightarrow> int option" where
  "statusOf r = (case r of Panic \<Rightarrow> None | Return (c, col) \<Rightarrow> Some (Status c))"

definition bodyOf :: "(Ctx \<times> Collection) outcome \<Rightarrow> json option" where
  "bodyOf r = (case r of Panic \<Rightarrow> None | Return (c, col) \<Rightarrow> Body c)"

text \<open>
  What base64url gives the token library: decoding inverts encoding, and an encoded
  segment contains neither the separator of the token nor a space.
\<close>

definition segments_ok :: "Lib \<Rightarrow> bool" where
  "segments_ok L =
     (\<forall>x. DecodeSegment L (EncodeSegment L x) = Inr x
          \<and> CHR ''.'' \<notin> set (EncodeSegment L x) \<and> CHR '' '' \<notin> set (EncodeSegment L x))"

text \<open>
  \<open>encoding/json\<close> reads back the object it wrote.  For a number this holds while
  the integer is exact in a \<open>float64\<close>, which is the case for every realistic time.
\<close>

definition json_ok :: "Lib \<Rightarrow> (string \<times> jval) list \<Rightarrow> bool" where
  "json_ok L obj = (json_Unmarshal L (json_Marshal L obj) = Inr obj)"

text \<open>The header \<open>jwt.NewWithClaims\<close> builds for the method HS256.\<close>

definition jwtHeader :: "(string \<times> jval) list" where
  "jwtHeader = [(''typ'', JString ''JWT''), (''alg'', JString ''HS256'')]"

section \<open>Facts about the library model\<close>

lemma statuses:
  "StatusOK = 200" "StatusNoContent = 204" "StatusBadRequest = 400" "StatusUnauthorized = 401"
  "StatusUnprocessableEntity = 422" "StatusInternalServerError = 500"
  by (simp_all add: StatusOK_def StatusNoContent_def StatusBadRequest_def StatusUnauthorized_def
      StatusUnprocessableEntity_def StatusInternalServerError_def)

lemma Status_response:
  "Status (response dat hs err c) = (case err of Some e \<Rightarrow> 500 | None \<Rightarrow> hs)"
  by (simp add: response_def statuses split: option.splits)

lemma hextable_digits:
  "\<forall>k \<in> set [0..<16]. fromHexChar (hextable ! k) = Some k
      \<and> hextable ! k \<noteq> CHR ''.'' \<and> hextable ! k \<noteq> CHR '' ''"
  by code_simp

lemma fromHexChar_hextable: "k < 16 \<Longrightarrow> fromHexChar (hextable ! k) = Some k"
  using hextable_digits by simp

lemma hextable_not_sep: "k < 16 \<Longrightarrow> hextable ! k \<noteq> CHR ''.'' \<and> hextable ! k \<noteq> CHR '' ''"
  using hextable_digits by simp

lemma of_char_less_256: "(of_char c :: nat) < 256"
proof -
  have "(of_char c :: nat) mod 256 < 256" by simp
  then show ?thesis by (simp only: of_char_mod_256)
qed

lemma of_char_div_16: "(of_char c :: nat) div 16 < 16"
  using of_char_less_256 [of c] by (simp add: div_less_iff_less_mult)

lemma hex_byte: "char_of ((of_char b :: nat) div 16 * 16 + of_char b mod 16) = b"
  by simp

lemma hex_roundtrip: "hex_DecodeString (hex_EncodeToString bs) = Inr bs"
  by (induction bs) (simp_all add: fromHexChar_hextable of_char_div_16 hex_byte)

lemma ObjectIDFromHex_Hex: "length oid = 12 \<Longrightarrow> ObjectIDFromHex (Hex oid) = (oid, None)"
  by (simp add: ObjectIDFromHex_def Hex_def hex_roundtrip)

lemma hex_no_sep:
  "CHR ''.'' \<notin> set (hex_EncodeToString bs) \<and> CHR '' '' \<notin> set (hex_EncodeToString bs)"
proof (induction bs)
  case Nil
  then show ?case by simp
next
  case (Cons b bs)
  have "(of_char b :: nat) mod 16 < 16" by simp
  with Cons show ?case
    using hextable_not_sep [of "of_char b div 16"] hextable_not_sep [of "of_char b mod 16"]
      of_char_div_16 [of b]
    by auto
qed

lemma find_None_ids:
  "oid \<notin> set (map ObjectID col) \<Longrightarrow> find (\<lambda>d. ObjectID d = oid) col = None"
  by (induction col) auto

lemma replaceFirst_absent: "oid \<notin> set (map ObjectID col) \<Longrightarrow> replaceFirst oid doc col = col"
  by (induction col) auto

lemma removeFirst_absent: "oid \<notin> set (map ObjectID col) \<Longrightarrow> removeFirst oid col = col"
  by (induction col) auto

lemma find_append_fresh:
  "oid \<notin> set (map ObjectID col) \<Longrightarrow> ObjectID doc = oid \<Longrightarrow>
   find (\<lambda>d. ObjectID d = oid) (col @ [doc]) = Some doc"
  by (induction col) auto

lemma find_replaceFirst:
  "oid \<in> set (map ObjectID col) \<Longrightarrow> ObjectID doc = oid \<Longrightarrow>
   find (\<lambda>d. ObjectID d = oid) (replaceFirst oid doc col) = Some doc"
  by (induction col) auto

lemma jwt_Parse_Valid:
  "jwt_Parse L now kf s = Inr t \<Longrightarrow> Valid t \<and> (\<exists>m. Claims t = MapClaims m)"
  by (auto simp: jwt_Parse_def Let_def split: if_splits sum.splits option.splits jval.splits)

lemma verifyToken_Valid:
  "verifyToken L env c = Inr t \<Longrightarrow> Valid t \<and> (\<exists>m. Claims t = MapClaims m)"
  using jwt_Parse_Valid [of L "jwt_TimeFunc_Unix env" "jwtKeyFunc env" "extractToken c" t]
  by (simp add: verifyToken_def Let_def split: sum.splits)

lemma split_from_no_sep: "sep \<notin> set t \<Longrightarrow> split_from sep cur t = [rev cur @ t]"
  by (induction t arbitrary: cur) auto

lemma split_from_prefix:
  "sep \<notin> set w \<Longrightarrow> split_from sep cur (w @ sep # rest) = (rev cur @ w) # split_from sep [] rest"
  by (induction w arbitrary: cur) auto


lemma strings_Split_two:
  "sep \<notin> set w \<Longrightarrow> sep \<notin> set t \<Longrightarrow> strings_Split (w @ sep # t) sep = [w, t]"
  by (simp add: strings_Split_def split_from_prefix split_from_no_sep)

lemma strings_Split_three:
  "sep \<notin> set a \<Longrightarrow> sep \<notin> set b \<Longrightarrow> sep \<notin> set c \<Longrightarrow>
   strings_Split (a @ sep # b @ sep # c) sep = [a, b, c]"
  by (simp add: strings_Split_def split_from_prefix split_from_no_sep)


lemma extractToken_two:
  "CHR '' '' \<notin> set w \<Longrightarrow> CHR '' '' \<notin> set t \<Longrightarrow>
   extractToken (c\<lparr>Get_Authorization := w @ CHR '' '' # t\<rparr>) = t"
  by (simp add: extractToken_def strings_Split_two)

lemma segments_ok_demoLib: "segments_ok demoLib"
  by (simp add: segments_ok_def demoLib_def hex_roundtrip hex_no_sep)

lemma wrap64_id: "0 \<le> x \<Longrightarrow> x < 2 ^ 63 \<Longrightarrow> wrap64 x = x"
  by (simp add: wrap64_def)

lemma accessTokenExp_eq:
  assumes "0 \<le> m" and "m \<le> 153722867"
  shows "accessTokenExp m nowNano = nowNano div 1000000000 + 60 * m"
proof -
  have "60000000000 * m < 2 ^ 63" using assms by simp
  moreover have "0 \<le> 60000000000 * m" using assms by simp
  ultimately have w: "wrap64 (60000000000 * m) = 60000000000 * m"
    by (rule wrap64_id [rotated])
  have "(nowNano + 60000000000 * m) div 1000000000 = nowNano div 1000000000 + 60 * m"
    using div_mult_self1 [of "1000000000::int" nowNano "60 * m"] by simp
  with w show ?thesis by (simp add: accessTokenExp_def)
qed

lemma MapClaims_Valid_exp:
  "now \<le> e \<Longrightarrow> MapClaims_Valid now [(''exp'', JNumber e)] = None"
  by (simp add: MapClaims_Valid_def VerifyExpiresAt_def VerifyIssuedAt_def VerifyNotBefore_def
      claimNumber_def)

lemma parse_signed:
  assumes seg: "segments_ok L"
    and jh: "json_ok L jwtHeader"
    and jc: "json_ok L claims"
    and valid: "MapClaims_Valid now claims = None"
    and key: "kf ''HS256'' = Inr key"
  shows "case SignedString L ''HS256'' claims key of
           Inl err \<Rightarrow> False
         | Inr t \<Rightarrow> CHR '' '' \<notin> set t
             \<and> map_sum id (\<lambda>tok. (Claims tok, Valid tok)) (jwt_Parse L now kf t)
                 = Inr (MapClaims claims, True)"
proof -
  define h where "h = EncodeSegment L (json_Marshal L jwtHeader)"
  define c where "c = EncodeSegment L (json_Marshal L claims)"
  define s where "s = EncodeSegment L (hmac_Sum L ''HS256'' key (h @ ''.'' @ c))"
  have dots: "CHR ''.'' \<notin> set h" "CHR ''.'' \<notin> set c" "CHR ''.'' \<notin> set s"
    and spaces: "CHR '' '' \<notin> set h" "CHR '' '' \<notin> set c" "CHR '' '' \<notin> set s"
    using seg by (simp_all add: segments_ok_def h_def c_def s_def)
  have dec: "DecodeSegment L h = Inr (json_Marshal L jwtHeader)"
    "DecodeSegment L c = Inr (json_Marshal L claims)"
    "DecodeSegment L s = Inr (hmac_Sum L ''HS256'' key (h @ ''.'' @ c))"
    using seg by (simp_all add: segments_ok_def h_def c_def s_def)
  have un: "json_Unmarshal L (json_Marshal L jwtHeader) = Inr jwtHeader"
    "json_Unmarshal L (json_Marshal L claims) = Inr claims"
    using jh jc by (simp_all add: json_ok_def)
  have signed: "SignedString L ''HS256'' claims key = Inr (h @ CHR ''.'' # c @ CHR ''.'' # s)"
    by (simp add: SignedString_def Method_Sign_def hmacMethods_def Let_def h_def c_def s_def
        jwtHeader_def)
  have parts: "strings_Split (h @ CHR ''.'' # c @ CHR ''.'' # s) (CHR ''.'') = [h, c, s]"
    using dots by (rule strings_Split_three)
  have alg: "map_of jwtHeader ''alg'' = Some (JString ''HS256'')"
    by (simp add: jwtHeader_def)
  have ver: "Method_Verify L ''HS256'' (h @ CHR ''.'' # c) s key = None"
    by (simp add: Method_Verify_def hmacMethods_def dec)
  have parse: "map_sum id (\<lambda>tok. (Claims tok, Valid tok))
                 (jwt_Parse L now kf (h @ CHR ''.'' # c @ CHR ''.'' # s))
               = Inr (MapClaims claims, True)"
    by (simp add: jwt_Parse_def parts dec un alg ver valid key signingMethods_def hmacMethods_def)
  from signed parse spaces show ?thesis by simp
qed

section \<open>The response helper\<close>

text \<open>
  C3.  A call of \<open>response\<close> with a non-nil error emits status 500 and the body
  \<open>{"error": err.Error()}\<close> whatever \<open>httpStatus\<close> the caller passed (422 and 401
  included) and whatever data it passed; with a nil error the status emitted is
  the \<open>httpStatus\<close> argument.
\<close>

theorem response_error_is_500:
  "Status (response dat httpStatus (Some e) c) = 500
   \<and> Body (response dat httpStatus (Some e) c) = Some (ErrorJSON (Error e))
   \<and> response dat httpStatus (Some e) c = response dat' httpStatus' (Some e) c
   \<and> Status (response dat StatusUnprocessableEntity (Some e) c) = 500
   \<and> Status (response dat StatusUnauthorized (Some e) c) = 500
   \<and> Status (response dat httpStatus None c) = httpStatus"
  by (simp add: response_def StatusInternalServerError_def split: option.split)

section \<open>Empty path identifier\<close>

text \<open>
  The handlers for \<open>/travels/:id\<close> test the identifier for emptiness and pass 422 to
  \<open>response\<close> together with the error \<open>id is not defined\<close>.  Called on a context
  with an empty identifier, \<open>getTravel\<close> answers 500 with that message, and
  \<open>updateTravel\<close> and \<open>deleteTravel\<close> answer 500 or panic.  The router matches the
  required parameter \<open>:id\<close> only against a non-empty segment, so no request reaches
  the handlers with such a context.
\<close>

lemma empty_id_is_500:
  "Status (getTravel flt col (c\<lparr>Params_id := []\<rparr>)) = 500
   \<and> Body (getTravel flt col (c\<lparr>Params_id := []\<rparr>)) = Some (ErrorJSON ''id is not defined'')
   \<and> statusOf (updateTravel L env col (c\<lparr>Params_id := []\<rparr>)) \<in> {None, Some 500}
   \<and> statusOf (deleteTravel L env col (c\<lparr>Params_id := []\<rparr>)) \<in> {None, Some 500}"
proof -
  have g: "getTravel flt col (c\<lparr>Params_id := []\<rparr>)
        = response Nil_data StatusUnprocessableEntity (Some (ErrorString ''id is not defined''))
            (c\<lparr>Params_id := []\<rparr>)"
    by (simp add: getTravel_def)
  have u: "statusOf (updateTravel L env col (c\<lparr>Params_id := []\<rparr>)) \<in> {None, Some 500}"
    by (auto simp: updateTravel_def statusOf_def Let_def Status_response
        split: outcome.splits option.splits prod.splits)
  have d: "statusOf (deleteTravel L env col (c\<lparr>Params_id := []\<rparr>)) \<in> {None, Some 500}"
    by (auto simp: deleteTravel_def statusOf_def Let_def Status_response
        split: outcome.splits option.splits prod.splits)
  from g u d show ?thesis
    by (simp add: response_def statuses)
qed

section \<open>Expired tokens\<close>

text \<open>
  C2.  The claim is that a protected handler answers a token whose expiration lies in
  the past with status 401.  When \<open>ExtractTokenMetadata\<close> returns a claim set whose
  expiration is before the handler's clock reading, each protected handler passes
  401 and the error \<open>unauthorized, check expiration time of your token\<close> to
  \<open>response\<close>, which answers 500 with that message and leaves the collection alone.
  For every request a protected handler that returns has written 500 or its success
  status, never 401.
\<close>

theorem expired_token_is_500:
  assumes "ExtractTokenMetadata L env c = Return (Some claims, None)"
    and "time_Now_Unix env > Expires claims"
  shows "createTravel L env col c
           = Return (c\<lparr>Status := 500, Body := Some (ErrorJSON expiredMsg)\<rparr>, col)
       \<and> updateTravel L env col c
           = Return (c\<lparr>Status := 500, Body := Some (ErrorJSON expiredMsg)\<rparr>, col)
       \<and> deleteTravel L env col c
           = Return (c\<lparr>Status := 500, Body := Some (ErrorJSON expiredMsg)\<rparr>, col)
       \<and> statusOf (createTravel L env' col' c') \<in> {None, Some 500, Some 200}
       \<and> statusOf (updateTravel L env' col' c') \<in> {None, Some 500, Some 204}
       \<and> statusOf (deleteTravel L env' col' c') \<in> {None, Some 500, Some 204}"
proof -
  have 1: "createTravel L env col c
           = Return (c\<lparr>Status := 500, Body := Some (ErrorJSON expiredMsg)\<rparr>, col)"
    using assms by (simp add: createTravel_def response_def statuses)
  have 2: "updateTravel L env col c
           = Return (c\<lparr>Status := 500, Body := Some (ErrorJSON expiredMsg)\<rparr>, col)"
    using assms by (simp add: updateTravel_def response_def statuses)
  have 3: "deleteTravel L env col c
           = Return (c\<lparr>Status := 500, Body := Some (ErrorJSON expiredMsg)\<rparr>, col)"
    using assms by (simp add: deleteTravel_def response_def statuses)
  have 4: "statusOf (createTravel L env' col' c') \<in> {None, Some 500, Some 200}"
    by (auto simp: createTravel_def statusOf_def Let_def Status_response statuses
        split: outcome.splits option.splits prod.splits)
  have 5: "statusOf (updateTravel L env' col' c') \<in> {None, Some 500, Some 204}"
    by (auto simp: updateTravel_def statusOf_def Let_def Status_response statuses
        split: outcome.splits option.splits prod.splits)
  have 6: "statusOf (deleteTravel L env' col' c') \<in> {None, Some 500, Some 204}"
    by (auto simp: deleteTravel_def statusOf_def Let_def Status_response statuses
        split: outcome.splits option.splits prod.splits)
  from 1 2 3 4 5 6 show ?thesis by simp
qed

text \<open>
  A request that takes this path through the whole route: a token signed with the
  secret whose expiration claim is 0.  The token library reads 0 as no expiration,
  so both the middleware and \<open>ExtractTokenMetadata\<close> accept the token, and the
  handler's own comparison rejects it.
\<close>

theorem expired_token_is_500_witness:
  "ExtractTokenMetadata demoLib demoEnv (newCtx [] (''Bearer '' @ demoToken 0) (None, demoTravel))
     = Return (Some \<lparr>Expires = 0\<rparr>, None)
   \<and> time_Now_Unix demoEnv > Expires \<lparr>Expires = 0\<rparr>
   \<and> statusOf (createTravel demoLib demoEnv []
                 (newCtx [] (''Bearer '' @ demoToken 0) (None, demoTravel))) = Some 500
   \<and> bodyOf (createTravel demoLib demoEnv []
               (newCtx [] (''Bearer '' @ demoToken 0) (None, demoTravel)))
       = Some (ErrorJSON ''unauthorized, check expiration time of your token'')
   \<and> statusOf (POST_travels demoLib demoEnv 1000 []
                 (newCtx [] (''Bearer '' @ demoToken 0) (None, demoTravel))) = Some 500"
proof -
  have h1: "ExtractTokenMetadata demoLib demoEnv
              (newCtx [] (''Bearer '' @ demoToken 0) (None, demoTravel))
            = Return (Some \<lparr>Expires = 0\<rparr>, None)"
    by code_simp
  have h2: "time_Now_Unix demoEnv > Expires \<lparr>Expires = 0\<rparr>"
    by (simp add: demoEnv_def)
  have h3: "JWTProtected demoLib demoEnv 1000
              (newCtx [] (''Bearer '' @ demoToken 0) (None, demoTravel))
            = Next (newCtx [] (''Bearer '' @ demoToken 0) (None, demoTravel))"
    by code_simp
  from expired_token_is_500 [OF h1 h2, of "[]"] h1 h2 h3
  show ?thesis
    by (simp add: statusOf_def bodyOf_def expiredMsg_def POST_travels_def protected_def)
qed

section \<open>Metadata and error of \<open>ExtractTokenMetadata\<close>\<close>

text \<open>
  C10.  \<open>ExtractTokenMetadata\<close> never returns a nil \<open>*TokenMetadata\<close> together with a
  nil error: a token that \<open>jwt.Parse\<close> returns without error is valid and carries
  \<open>MapClaims\<close>, so the final \<open>return nil, err\<close> of the function is not reached with a
  nil \<open>err\<close>.  Hence a protected handler never reads \<open>claims.Expires\<close> through a nil
  pointer: it panics exactly when \<open>ExtractTokenMetadata\<close> itself panics (on the type
  assertion of the \<open>exp\<close> claim).
\<close>

theorem ExtractTokenMetadata_nil_error_has_metadata:
  "ExtractTokenMetadata L env c \<noteq> Return (None, None)
   \<and> (createTravel L env col c = Panic) = (ExtractTokenMetadata L env c = Panic)
   \<and> (updateTravel L env col c = Panic) = (ExtractTokenMetadata L env c = Panic)
   \<and> (deleteTravel L env col c = Panic) = (ExtractTokenMetadata L env c = Panic)"
proof -
  have a: "ExtractTokenMetadata L env c \<noteq> Return (None, None)"
  proof (cases "verifyToken L env c")
    case (Inl e)
    then show ?thesis by (simp add: ExtractTokenMetadata_def)
  next
    case (Inr t)
    with verifyToken_Valid [OF Inr] show ?thesis
      by (auto simp: ExtractTokenMetadata_def split: option.splits jval.splits)
  qed
  have b: "(createTravel L env col c = Panic) = (ExtractTokenMetadata L env c = Panic)"
    using a by (auto simp: createTravel_def Let_def split: outcome.splits option.splits prod.splits)
  have c: "(updateTravel L env col c = Panic) = (ExtractTokenMetadata L env c = Panic)"
    using a by (auto simp: updateTravel_def Let_def split: outcome.splits option.splits prod.splits)
  have d: "(deleteTravel L env col c = Panic) = (ExtractTokenMetadata L env c = Panic)"
    using a by (auto simp: deleteTravel_def Let_def split: outcome.splits option.splits prod.splits)
  from a b c d show ?thesis by simp
qed

section \<open>The repository on identifiers\<close>

text \<open>
  C5.  For an identifier that parses and matches no stored document, and a driver
  call that meets no fault: \<open>findOne\<close> fails with \<open>mongo.ErrNoDocuments\<close> (the
  not-found condition), while \<open>deleteOne\<close> and \<open>updateOne\<close> return a nil error and
  leave the collection as it was.
\<close>

theorem missing_id_findOne_deleteOne_updateOne:
  assumes "ObjectIDFromHex idHex = (oid, None)"
    and "oid \<notin> set (map ObjectID col)"
  shows "findOne None col idHex = Inl ErrNoDocuments
       \<and> deleteOne None col idHex = (None, col)
       \<and> updateOne None col idHex travel = (None, travel\<lparr>ObjectID := oid\<rparr>, col)"
  using assms
  by (simp add: findOne_def deleteOne_def updateOne_def Collection_FindOne_def
      Collection_DeleteOne_def Collection_ReplaceOne_def find_None_ids replaceFirst_absent
      removeFirst_absent)

theorem missing_id_witness:
  "ObjectIDFromHex ''6162636465666768696a6b6c'' = (''abcdefghijkl'', None)
   \<and> ''abcdefghijkl'' \<notin> set (map ObjectID [demoTravel])
   \<and> findOne None [demoTravel] ''6162636465666768696a6b6c'' = Inl ErrNoDocuments
   \<and> deleteOne None [demoTravel] ''6162636465666768696a6b6c'' = (None, [demoTravel])
   \<and> updateOne None [demoTravel] ''6162636465666768696a6b6c'' demoTravel
        = (None, demoTravel\<lparr>ObjectID := ''abcdefghijkl''\<rparr>, [demoTravel])"
proof -
  have h1: "ObjectIDFromHex ''6162636465666768696a6b6c'' = (''abcdefghijkl'', None)"
    by code_simp
  have h2: "''abcdefghijkl'' \<notin> set (map ObjectID [demoTravel])"
    by code_simp
  from missing_id_findOne_deleteOne_updateOne [OF h1 h2, of demoTravel] h1 h2
  show ?thesis by simp
qed

text \<open>
  C6.  \<open>insertOne\<close> writes the identifier that \<open>primitive.NewObjectID()\<close> returned
  over whatever identifier the payload carried.  When it returns a nil error that
  identifier was not in the collection before (the server refuses a duplicate
  \<open>_id\<close>).  When the identifier is new and the driver call meets no fault,
  \<open>insertOne\<close> succeeds and \<open>findOne\<close> on the hexadecimal form of the identifier
  returns the payload with the identifier replaced and every other field as given.
\<close>

theorem insertOne_then_findOne:
  "insertOne newId flt col (P\<lparr>ObjectID := anyId\<rparr>) = insertOne newId flt col P
   \<and> ObjectID (fst (snd (insertOne newId flt col P))) = newId
   \<and> (fst (insertOne newId flt col P) = None \<longrightarrow> newId \<notin> set (map ObjectID col))
   \<and> (length newId = 12 \<and> newId \<notin> set (map ObjectID col) \<longrightarrow>
        insertOne newId None col P
          = (None, P\<lparr>ObjectID := newId\<rparr>, col @ [P\<lparr>ObjectID := newId\<rparr>])
        \<and> findOne None (col @ [P\<lparr>ObjectID := newId\<rparr>]) (Hex newId)
            = Inr (P\<lparr>ObjectID := newId\<rparr>))"
proof -
  have 1: "insertOne newId flt col (P\<lparr>ObjectID := anyId\<rparr>) = insertOne newId flt col P"
    by (simp add: insertOne_def)
  have 2: "ObjectID (fst (snd (insertOne newId flt col P))) = newId"
    by (simp add: insertOne_def Let_def split: prod.splits option.splits)
  have 3: "fst (insertOne newId flt col P) = None \<longrightarrow> newId \<notin> set (map ObjectID col)"
    by (auto simp: insertOne_def Let_def Collection_InsertOne_def
        split: prod.splits option.splits if_splits)
  have 4: "length newId = 12 \<and> newId \<notin> set (map ObjectID col) \<longrightarrow>
        insertOne newId None col P
          = (None, P\<lparr>ObjectID := newId\<rparr>, col @ [P\<lparr>ObjectID := newId\<rparr>])
        \<and> findOne None (col @ [P\<lparr>ObjectID := newId\<rparr>]) (Hex newId)
            = Inr (P\<lparr>ObjectID := newId\<rparr>)"
    by (simp add: Let_def insertOne_def Collection_InsertOne_def findOne_def
        ObjectIDFromHex_Hex Collection_FindOne_def find_append_fresh)
  from 1 2 3 4 show ?thesis by simp
qed

theorem insertOne_then_findOne_witness:
  "length ''abcdefghijkl'' = 12
   \<and> ''abcdefghijkl'' \<notin> set (map ObjectID [demoTravel])
   \<and> fst (insertOne ''abcdefghijkl'' None [demoTravel] demoTravel) = None
   \<and> insertOne ''abcdefghijkl'' None [demoTravel] demoTravel
        = (None, demoTravel\<lparr>ObjectID := ''abcdefghijkl''\<rparr>,
           [demoTravel, demoTravel\<lparr>ObjectID := ''abcdefghijkl''\<rparr>])
   \<and> findOne None [demoTravel, demoTravel\<lparr>ObjectID := ''abcdefghijkl''\<rparr>] (Hex ''abcdefghijkl'')
        = Inr (demoTravel\<lparr>ObjectID := ''abcdefghijkl''\<rparr>)"
proof -
  have h1: "length ''abcdefghijkl'' = 12" by simp
  have h2: "''abcdefghijkl'' \<notin> set (map ObjectID [demoTravel])"
    by code_simp
  from insertOne_then_findOne [where newId = "''abcdefghijkl''" and flt = None
      and col = "[demoTravel]" and P = demoTravel] h1 h2
  show ?thesis by simp
qed

text \<open>
  C9.  The claim is that the identifier given to \<open>updateOne\<close> must parse.
  \<open>findOne\<close> and \<open>deleteOne\<close> return the error of \<open>ObjectIDFromHex\<close>;
  \<open>updateOne\<close> drops it and goes on with the identifier \<open>ObjectIDFromHex\<close> returned
  beside the error, the zero identifier.  With no driver fault \<open>updateOne\<close> returns a
  nil error for every identifier string, and the record it hands to the driver has
  the first component of \<open>ObjectIDFromHex\<close> as its identifier.  For the string
  \<open>zz\<close>: \<open>findOne\<close> and \<open>deleteOne\<close> fail with the error of the bad digit,
  \<open>updateOne\<close> returns nil and overwrites the stored document whose identifier is
  zero, and the route \<open>PUT /travels/zz\<close> answers 204.
\<close>

theorem updateOne_drops_parse_error:
  "fst (updateOne None col idHex travel) = None
   \<and> ObjectID (fst (snd (updateOne flt col idHex travel))) = fst (ObjectIDFromHex idHex)
   \<and> ObjectIDFromHex ''zz'' = (NilObjectID, Some (InvalidByteError (CHR ''z'')))
   \<and> findOne None [demoTravel] ''zz'' = Inl (InvalidByteError (CHR ''z''))
   \<and> deleteOne None [demoTravel] ''zz'' = (Some (InvalidByteError (CHR ''z'')), [demoTravel])
   \<and> updateOne None [demoTravel] ''zz'' demoUpdate
       = (None, demoUpdate\<lparr>ObjectID := NilObjectID\<rparr>, [demoUpdate\<lparr>ObjectID := NilObjectID\<rparr>])
   \<and> PUT_travels_id demoLib demoEnv 1000 [demoTravel]
        (newCtx ''zz'' (''Bearer '' @ demoToken 1900) (None, demoUpdate))
       = Return ((newCtx ''zz'' (''Bearer '' @ demoToken 1900) (None, demoUpdate))
                   \<lparr>Status := 204\<rparr>, [demoUpdate\<lparr>ObjectID := NilObjectID\<rparr>])"
proof -
  have 1: "fst (updateOne None col idHex travel) = None"
    by (simp add: updateOne_def Let_def Collection_ReplaceOne_def split: prod.splits option.splits)
  have 2: "ObjectID (fst (snd (updateOne flt col idHex travel))) = fst (ObjectIDFromHex idHex)"
    by (simp add: updateOne_def Let_def split: prod.splits option.splits)
  have 3: "ObjectIDFromHex ''zz'' = (NilObjectID, Some (InvalidByteError (CHR ''z'')))"
    by code_simp
  have 4: "findOne None [demoTravel] ''zz'' = Inl (InvalidByteError (CHR ''z''))"
    by code_simp
  have 5: "deleteOne None [demoTravel] ''zz'' = (Some (InvalidByteError (CHR ''z'')), [demoTravel])"
    by code_simp
  have 6: "updateOne None [demoTravel] ''zz'' demoUpdate
       = (None, demoUpdate\<lparr>ObjectID := NilObjectID\<rparr>, [demoUpdate\<lparr>ObjectID := NilObjectID\<rparr>])"
    by code_simp
  have 7: "PUT_travels_id demoLib demoEnv 1000 [demoTravel]
        (newCtx ''zz'' (''Bearer '' @ demoToken 1900) (None, demoUpdate))
       = Return ((newCtx ''zz'' (''Bearer '' @ demoToken 1900) (None, demoUpdate))
                   \<lparr>Status := 204\<rparr>, [demoUpdate\<lparr>ObjectID := NilObjectID\<rparr>])"
    by code_simp
  from 1 2 3 4 5 6 7 show ?thesis by simp
qed

text \<open>
  For an identifier that parses, the other half of the claim holds: the record
  handed to the driver has that identifier, whatever identifier it carried, and
  when a document with that identifier is stored, \<open>findOne\<close> afterwards returns
  the record under it.
\<close>

lemma updateOne_forces_id:
  assumes "ObjectIDFromHex idHex = (oid, None)"
  shows "updateOne None col idHex travel
           = (None, travel\<lparr>ObjectID := oid\<rparr>, replaceFirst oid (travel\<lparr>ObjectID := oid\<rparr>) col)
       \<and> updateOne flt col idHex (travel\<lparr>ObjectID := anyId\<rparr>) = updateOne flt col idHex travel
       \<and> ObjectID (fst (snd (updateOne flt col idHex travel))) = oid
       \<and> (oid \<in> set (map ObjectID col) \<longrightarrow>
            findOne None (replaceFirst oid (travel\<lparr>ObjectID := oid\<rparr>) col) idHex
              = Inr (travel\<lparr>ObjectID := oid\<rparr>))"
proof -
  have 1: "updateOne None col idHex travel
           = (None, travel\<lparr>ObjectID := oid\<rparr>, replaceFirst oid (travel\<lparr>ObjectID := oid\<rparr>) col)"
    using assms by (simp add: Let_def updateOne_def Collection_ReplaceOne_def)
  have 2: "updateOne flt col idHex (travel\<lparr>ObjectID := anyId\<rparr>) = updateOne flt col idHex travel"
    by (simp add: updateOne_def)
  have 3: "ObjectID (fst (snd (updateOne flt col idHex travel))) = oid"
    using assms by (simp add: updateOne_def Let_def split: prod.splits option.splits)
  have 4: "oid \<in> set (map ObjectID col) \<longrightarrow>
            findOne None (replaceFirst oid (travel\<lparr>ObjectID := oid\<rparr>) col) idHex
              = Inr (travel\<lparr>ObjectID := oid\<rparr>)"
    using assms by (simp add: findOne_def Collection_FindOne_def find_replaceFirst)
  from 1 2 3 4 show ?thesis by simp
qed

section \<open>The credential and the scheme word\<close>



section \<open>Issuing and verifying a token\<close>

text \<open>
  C7, as amended.  For a configured lifetime of \<open>minutesCount\<close> minutes with
  \<open>0 \<le> minutesCount \<le> 153722867\<close> (the largest count whose nanoseconds fit an
  \<open>int64\<close>), the token issued at the clock reading \<open>nowNano\<close> carries the single
  claim \<open>exp\<close>, equal to the issuance second plus \<open>60 * minutesCount\<close>, hence at
  least the issuance second and at most the issuance second plus the lifetime.
  With a sound segment encoding and a JSON codec that reads back the two objects it
  wrote, verification under the same secret at a clock reading not later than
  \<open>exp\<close> succeeds, returns that expiration, and the verified claim set holds nothing
  but \<open>exp\<close>.
\<close>

theorem issued_token_verifies:
  assumes seg: "segments_ok L"
    and jh: "json_ok L jwtHeader"
    and jc: "json_ok L [(''exp'', JNumber (accessTokenExp minutesCount nowNano))]"
    and m0: "0 \<le> minutesCount"
    and m1: "minutesCount \<le> 153722867"
    and key: "JWT_SECRET_KEY env = secret"
    and time: "jwt_TimeFunc_Unix env \<le> accessTokenExp minutesCount nowNano"
  shows "accessTokenExp minutesCount nowNano = nowNano div 1000000000 + 60 * minutesCount
       \<and> nowNano div 1000000000 \<le> accessTokenExp minutesCount nowNano
       \<and> accessTokenExp minutesCount nowNano \<le> nowNano div 1000000000 + 60 * minutesCount
       \<and> (case GenerateNewAccessToken L secret minutesCount nowNano of
             Inl err \<Rightarrow> False
           | Inr t \<Rightarrow>
               ExtractTokenMetadata L env (c\<lparr>Get_Authorization := ''Bearer '' @ t\<rparr>)
                 = Return (Some \<lparr>Expires = accessTokenExp minutesCount nowNano\<rparr>, None)
               \<and> map_sum id Claims (verifyToken L env (c\<lparr>Get_Authorization := ''Bearer '' @ t\<rparr>))
                   = Inr (MapClaims [(''exp'', JNumber (accessTokenExp minutesCount nowNano))]))"
proof -
  let ?e = "accessTokenExp minutesCount nowNano"
  let ?claims = "[(''exp'', JNumber ?e)]"
  have e: "?e = nowNano div 1000000000 + 60 * minutesCount"
    using m0 m1 by (rule accessTokenExp_eq)
  have valid: "MapClaims_Valid (jwt_TimeFunc_Unix env) ?claims = None"
    using time by (rule MapClaims_Valid_exp)
  have kf: "jwtKeyFunc env ''HS256'' = Inr secret"
    using key by (simp add: jwtKeyFunc_def)
  note ps = parse_signed [where L = L and claims = ?claims and now = "jwt_TimeFunc_Unix env"
      and kf = "jwtKeyFunc env" and key = secret, OF seg jh jc valid kf]
  show ?thesis
  proof (cases "SignedString L ''HS256'' ?claims secret")
    case (Inl err)
    with ps show ?thesis by simp
  next
    case (Inr t)
    with ps have sp: "CHR '' '' \<notin> set t"
      and p: "map_sum id (\<lambda>tok. (Claims tok, Valid tok))
                (jwt_Parse L (jwt_TimeFunc_Unix env) (jwtKeyFunc env) t)
              = Inr (MapClaims ?claims, True)"
      by simp_all
    have b: "CHR '' '' \<notin> set ''Bearer''" by simp
    have x: "extractToken (c\<lparr>Get_Authorization := ''Bearer '' @ t\<rparr>) = t"
      using extractToken_two [OF b sp, of c] by simp
    from p obtain tok where tok: "jwt_Parse L (jwt_TimeFunc_Unix env) (jwtKeyFunc env) t = Inr tok"
      and cl: "Claims tok = MapClaims ?claims" and v: "Valid tok"
      by (cases "jwt_Parse L (jwt_TimeFunc_Unix env) (jwtKeyFunc env) t") auto
    have vt: "verifyToken L env (c\<lparr>Get_Authorization := ''Bearer '' @ t\<rparr>) = Inr tok"
      using tok x by (simp add: verifyToken_def)
    have ex: "ExtractTokenMetadata L env (c\<lparr>Get_Authorization := ''Bearer '' @ t\<rparr>)
                = Return (Some \<lparr>Expires = ?e\<rparr>, None)"
      using vt cl v by (simp add: ExtractTokenMetadata_def)
    have gen: "GenerateNewAccessToken L secret minutesCount nowNano = Inr t"
      using Inr by (simp add: GenerateNewAccessToken_def)
    from e m0 gen ex vt cl show ?thesis by simp
  qed
qed

text \<open>
  The claim as stated fails for a configured lifetime of \<open>-1\<close>: the token issued
  at second 1000 carries \<open>exp = 940\<close>, before the issuance, and verification at the
  issuance second fails with \<open>Token is expired\<close>.  For the lifetime 153722868,
  whose nanoseconds overflow, the expiration also lies before the issuance.  The
  token issued for 15 minutes at second 1000 fails verification at second 1901.
\<close>

theorem issued_token_counterexample:
  "accessTokenExp (- 1) 1000000000000 = 940
   \<and> accessTokenExp (- 1) 1000000000000 < 1000000000000 div 1000000000
   \<and> GenerateNewAccessToken demoLib ''secret'' (- 1) 1000000000000 = Inr (demoToken 940)
   \<and> jwt_TimeFunc_Unix demoEnv = 1000000000000 div 1000000000
   \<and> ExtractTokenMetadata demoLib demoEnv (newCtx [] (''Bearer '' @ demoToken 940) (None, demoTravel))
       = Return (None, Some (ValidationError (Some (ErrorString ''Token is expired'')) []))
   \<and> accessTokenExp 153722868 1000000000000 < 1000000000000 div 1000000000
   \<and> GenerateNewAccessToken demoLib ''secret'' 15 1000000000000 = Inr (demoToken 1900)
   \<and> ExtractTokenMetadata demoLib (demoEnv\<lparr>jwt_TimeFunc_Unix := 1901\<rparr>)
        (newCtx [] (''Bearer '' @ demoToken 1900) (None, demoTravel))
       = Return (None, Some (ValidationError (Some (ErrorString ''Token is expired'')) []))"
  by code_simp

theorem issued_token_verifies_witness:
  "segments_ok demoLib
   \<and> json_ok demoLib jwtHeader
   \<and> json_ok demoLib [(''exp'', JNumber (accessTokenExp 15 1000000000000))]
   \<and> (0::int) \<le> 15 \<and> (15::int) \<le> 153722867
   \<and> JWT_SECRET_KEY demoEnv = ''secret''
   \<and> jwt_TimeFunc_Unix demoEnv \<le> accessTokenExp 15 1000000000000
   \<and> accessTokenExp 15 1000000000000 = 1900
   \<and> GenerateNewAccessToken demoLib ''secret'' 15 1000000000000 = Inr (demoToken 1900)
   \<and> ExtractTokenMetadata demoLib demoEnv (newCtx [] (''Bearer '' @ demoToken 1900) (None, demoTravel))
       = Return (Some \<lparr>Expires = 1900\<rparr>, None)"
proof -
  have h2: "json_ok demoLib jwtHeader" by code_simp
  have h3: "json_ok demoLib [(''exp'', JNumber (accessTokenExp 15 1000000000000))]" by code_simp
  have h4: "(0::int) \<le> 15" by simp
  have h5: "(15::int) \<le> 153722867" by simp
  have h6: "JWT_SECRET_KEY demoEnv = ''secret''" by (simp add: demoEnv_def)
  have h7: "jwt_TimeFunc_Unix demoEnv \<le> accessTokenExp 15 1000000000000" by code_simp
  have g: "GenerateNewAccessToken demoLib ''secret'' 15 1000000000000 = Inr (demoToken 1900)"
    by code_simp
  have e: "accessTokenExp 15 1000000000000 = 1900" by code_simp
  have c: "(newCtx [] [] (None, demoTravel))\<lparr>Get_Authorization := ''Bearer '' @ demoToken 1900\<rparr>
           = newCtx [] (''Bearer '' @ demoToken 1900) (None, demoTravel)"
    by (simp add: newCtx_def)
  from issued_token_verifies [OF segments_ok_demoLib h2 h3 h4 h5 h6 h7,
      of "newCtx [] [] (None, demoTravel)"]
  show ?thesis
    unfolding g e using segments_ok_demoLib h2 h3 h6 h7 g e c by simp
qed

section \<open>The Authorization header on a protected route\<close>

text \<open>
  C8, as amended.  On each protected route a request whose Authorization header is
  missing (empty), has nothing after the scheme word and one further byte, or does
  not begin with \<open>Bearer\<close> is answered by the middleware's error handler with
  status 400 and the message \<open>Missing or malformed JWT\<close>; the handler is not run
  and the collection is unchanged.  A failure of the middleware's own verification
  of the rest of the header is answered with status 401 and the error's message.
  A header the middleware accepts but whose token the handler's \<open>verifyToken\<close>
  rejects is answered by the handler with status 500 and the error's message.
\<close>

theorem protected_route_auth_failures:
  "(length (Get_Authorization c) \<le> 7 \<or> take 6 (Get_Authorization c) \<noteq> ''Bearer'' \<longrightarrow>
      POST_travels L env mwNow col c
        = Return (c\<lparr>Status := 400, Body := Some (MsgJSON True ''Missing or malformed JWT'')\<rparr>, col)
      \<and> PUT_travels_id L env mwNow col c
        = Return (c\<lparr>Status := 400, Body := Some (MsgJSON True ''Missing or malformed JWT'')\<rparr>, col)
      \<and> DELETE_travels_id L env mwNow col c
        = Return (c\<lparr>Status := 400, Body := Some (MsgJSON True ''Missing or malformed JWT'')\<rparr>, col))
   \<and> (jwtFromHeader c = Inr auth \<and> jwt_Parse L mwNow (middlewareKeyFunc env) auth = Inl err
        \<and> Error err \<noteq> ''Missing or malformed JWT'' \<longrightarrow>
      POST_travels L env mwNow col c
        = Return (c\<lparr>Status := 401, Body := Some (MsgJSON True (Error err))\<rparr>, col)
      \<and> PUT_travels_id L env mwNow col c
        = Return (c\<lparr>Status := 401, Body := Some (MsgJSON True (Error err))\<rparr>, col)
      \<and> DELETE_travels_id L env mwNow col c
        = Return (c\<lparr>Status := 401, Body := Some (MsgJSON True (Error err))\<rparr>, col))
   \<and> (jwtFromHeader c = Inr auth \<and> jwt_Parse L mwNow (middlewareKeyFunc env) auth = Inr tok
        \<and> verifyToken L env c = Inl err' \<longrightarrow>
      POST_travels L env mwNow col c
        = Return (c\<lparr>Status := 500, Body := Some (ErrorJSON (Error err'))\<rparr>, col)
      \<and> PUT_travels_id L env mwNow col c
        = Return (c\<lparr>Status := 500, Body := Some (ErrorJSON (Error err'))\<rparr>, col)
      \<and> DELETE_travels_id L env mwNow col c
        = Return (c\<lparr>Status := 500, Body := Some (ErrorJSON (Error err'))\<rparr>, col))"
proof -
  have bad: "length (Get_Authorization c) \<le> 7 \<or> take 6 (Get_Authorization c) \<noteq> ''Bearer'' \<Longrightarrow>
      JWTProtected L env mwNow c
        = Respond (c\<lparr>Status := 400, Body := Some (MsgJSON True ''Missing or malformed JWT'')\<rparr>)"
    by (auto simp: JWTProtected_def jwtFromHeader_def jwtError_def statuses Let_def
        eval_nat_numeral)
  have other: "jwtFromHeader c = Inr auth \<Longrightarrow> jwt_Parse L mwNow (middlewareKeyFunc env) auth = Inl err
        \<Longrightarrow> Error err \<noteq> ''Missing or malformed JWT'' \<Longrightarrow>
      JWTProtected L env mwNow c
        = Respond (c\<lparr>Status := 401, Body := Some (MsgJSON True (Error err))\<rparr>)"
    by (simp add: JWTProtected_def jwtError_def statuses)
  have pass: "jwtFromHeader c = Inr auth \<Longrightarrow> jwt_Parse L mwNow (middlewareKeyFunc env) auth = Inr tok
        \<Longrightarrow> JWTProtected L env mwNow c = Next c"
    by (simp add: JWTProtected_def)
  have ex: "verifyToken L env c = Inl err' \<Longrightarrow>
        ExtractTokenMetadata L env c = Return (None, Some err')"
    by (simp add: ExtractTokenMetadata_def)
  have h: "verifyToken L env c = Inl err' \<Longrightarrow>
        createTravel L env col c
          = Return (c\<lparr>Status := 500, Body := Some (ErrorJSON (Error err'))\<rparr>, col)
        \<and> updateTravel L env col c
          = Return (c\<lparr>Status := 500, Body := Some (ErrorJSON (Error err'))\<rparr>, col)
        \<and> deleteTravel L env col c
          = Return (c\<lparr>Status := 500, Body := Some (ErrorJSON (Error err'))\<rparr>, col)"
    using ex by (simp add: createTravel_def updateTravel_def deleteTravel_def response_def statuses)
  from bad other pass h show ?thesis
    by (simp add: POST_travels_def PUT_travels_id_def DELETE_travels_id_def protected_def)
qed

text \<open>
  The claim as stated fails: the middleware does not look at the byte after the
  scheme word.  A header made of \<open>Bearer\<close>, a byte that is not a space and an
  accepted token passes the middleware; \<open>extractToken\<close> then finds a single piece,
  verification in the handler fails and the answer is 500, neither 400 nor 401.
\<close>

theorem malformed_header_counterexample:
  "(''BearerX'' @ demoToken 1900) ! 6 \<noteq> CHR '' ''
   \<and> statusOf (POST_travels demoLib demoEnv 1000 []
                 (newCtx [] (''BearerX'' @ demoToken 1900) (None, demoTravel))) = Some 500
   \<and> bodyOf (POST_travels demoLib demoEnv 1000 []
               (newCtx [] (''BearerX'' @ demoToken 1900) (None, demoTravel)))
       = Some (ErrorJSON ''token contains an invalid number of segments'')"
  by code_simp

theorem protected_route_auth_failures_witness:
  "length (Get_Authorization (newCtx [] [] (None, demoTravel))) \<le> 7
   \<and> statusOf (POST_travels demoLib demoEnv 1000 [] (newCtx [] [] (None, demoTravel))) = Some 400
   \<and> bodyOf (POST_travels demoLib demoEnv 1000 [] (newCtx [] [] (None, demoTravel)))
       = Some (MsgJSON True ''Missing or malformed JWT'')
   \<and> jwtFromHeader (newCtx [] (''Bearer '' @ demoToken 940) (None, demoTravel)) = Inr (demoToken 940)
   \<and> jwt_Parse demoLib 1000 (middlewareKeyFunc demoEnv) (demoToken 940)
       = Inl (ValidationError (Some (ErrorString ''Token is expired'')) [])
   \<and> Error (ValidationError (Some (ErrorString ''Token is expired'')) []) \<noteq> ''Missing or malformed JWT''
   \<and> statusOf (POST_travels demoLib demoEnv 1000 []
                 (newCtx [] (''Bearer '' @ demoToken 940) (None, demoTravel))) = Some 401
   \<and> bodyOf (POST_travels demoLib demoEnv 1000 []
               (newCtx [] (''Bearer '' @ demoToken 940) (None, demoTravel)))
       = Some (MsgJSON True ''Token is expired'')
   \<and> jwtFromHeader (newCtx [] (''BearerX'' @ demoToken 1900) (None, demoTravel))
       = Inr (demoToken 1900)
   \<and> map_sum id Valid (jwt_Parse demoLib 1000 (middlewareKeyFunc demoEnv) (demoToken 1900))
       = Inr True
   \<and> verifyToken demoLib demoEnv (newCtx [] (''BearerX'' @ demoToken 1900) (None, demoTravel))
       = Inl (ValidationError None ''token contains an invalid number of segments'')
   \<and> statusOf (DELETE_travels_id demoLib demoEnv 1000 []
                 (newCtx [] (''BearerX'' @ demoToken 1900) (None, demoTravel))) = Some 500"
proof -
  have h1: "length (Get_Authorization (newCtx [] [] (None, demoTravel))) \<le> 7"
    by (simp add: newCtx_def)
  have h2: "jwtFromHeader (newCtx [] (''Bearer '' @ demoToken 940) (None, demoTravel))
              = Inr (demoToken 940)"
    by code_simp
  have h3: "jwt_Parse demoLib 1000 (middlewareKeyFunc demoEnv) (demoToken 940)
              = Inl (ValidationError (Some (ErrorString ''Token is expired'')) [])"
    by code_simp
  have h4: "Error (ValidationError (Some (ErrorString ''Token is expired'')) [])
              \<noteq> ''Missing or malformed JWT''"
    by simp
  have h5: "jwtFromHeader (newCtx [] (''BearerX'' @ demoToken 1900) (None, demoTravel))
              = Inr (demoToken 1900)"
    by code_simp
  have h6: "map_sum id Valid (jwt_Parse demoLib 1000 (middlewareKeyFunc demoEnv) (demoToken 1900))
              = Inr True"
    by code_simp
  then obtain tok where h6': "jwt_Parse demoLib 1000 (middlewareKeyFunc demoEnv) (demoToken 1900)
              = Inr tok"
    by (cases "jwt_Parse demoLib 1000 (middlewareKeyFunc demoEnv) (demoToken 1900)") auto
  have h7: "verifyToken demoLib demoEnv (newCtx [] (''BearerX'' @ demoToken 1900) (None, demoTravel))
              = Inl (ValidationError None ''token contains an invalid number of segments'')"
    by code_simp
  from protected_route_auth_failures
         [where c = "newCtx [] [] (None, demoTravel)" and L = demoLib and env = demoEnv
            and mwNow = 1000 and col = "[]"]
       protected_route_auth_failures
         [where c = "newCtx [] (''Bearer '' @ demoToken 940) (None, demoTravel)" and L = demoLib
            and env = demoEnv and mwNow = 1000 and col = "[]" and auth = "demoToken 940"
            and err = "ValidationError (Some (ErrorString ''Token is expired'')) []"]
       protected_route_auth_failures
         [where c = "newCtx [] (''BearerX'' @ demoToken 1900) (None, demoTravel)" and L = demoLib
            and env = demoEnv and mwNow = 1000 and col = "[]" and auth = "demoToken 1900"
            and tok = tok
            and err' = "ValidationError None ''token contains an invalid number of segments''"]
       h1 h2 h3 h4 h5 h6 h6' h7
  show ?thesis by (simp add: statusOf_def bodyOf_def)
qed

end
